theory Spec2Isabelle
  imports Main
begin

section \<open>JavaScript values exchanged with the remote endpoint\<close>

text \<open>
  The agent of \<^verbatim>\<open>MedgemmaAgent.ts\<close> receives the result of the Gradio call as an untyped
  value (\<^verbatim>\<open>const result: any\<close>) and probes its shape at run time. The model keeps that value
  as a JSON-like tree. Strings are HOL strings; an object is an association list whose
  first binding of a key is the value of the property. Objects are plain JSON objects: no
  key shadows a member of \<^verbatim>\<open>Object.prototype\<close>.

  A JavaScript number is a double. The model holds the integers from \<open>-(2^53 - 1)\<close> to
  \<open>2^53 - 1\<close>: each is a double exactly, and \<^verbatim>\<open>String\<close> prints each as its decimal digits.
  Numbers with a fraction, of larger magnitude, \<^verbatim>\<open>NaN\<close> and the infinities are outside the
  model.
\<close>

typedef safe_int = "{n :: int. - 9007199254740991 \<le> n \<and> n \<le> 9007199254740991}"
  morphisms int_of safe_of_int
  by (rule exI [of _ 0]) simp

text \<open>
  Writing a number of the model from its integer. It is meant for integers in the range
  only; an integer outside it names no number of the model and is read as 0, so that the
  function is total.
\<close>

definition num :: "int \<Rightarrow> safe_int" where
  "num i = safe_of_int (if - 9007199254740991 \<le> i \<and> i \<le> 9007199254740991 then i else 0)"

lemma safe_of_int_code [code abstype]: "safe_of_int (int_of n) = n"
  by (rule int_of_inverse)

lemma int_of_num [simp, code abstract]:
  "int_of (num i) = (if - 9007199254740991 \<le> i \<and> i \<le> 9007199254740991 then i else 0)"
  by (simp add: num_def safe_of_int_inverse)

instantiation safe_int :: equal
begin

definition equal_safe_int :: "safe_int \<Rightarrow> safe_int \<Rightarrow> bool" where
  "equal_safe_int a b = (int_of a = int_of b)"

instance
  by standard (simp add: equal_safe_int_def int_of_inject)

end

datatype jsval =
    JUndefined
  | JNull
  | JBool bool
  | JNum safe_int
  | JStr (str_of: string)
  | JArr (arr_of: "jsval list")
  | JObj "(string \<times> jsval) list"

text \<open>Truthiness, as \<^verbatim>\<open>!data\<close>, \<^verbatim>\<open>a || b\<close> and \<^verbatim>\<open>filter(Boolean)\<close> read it.\<close>

fun js_truthy :: "jsval \<Rightarrow> bool" where
  "js_truthy JUndefined = False"
| "js_truthy JNull = False"
| "js_truthy (JBool b) = b"
| "js_truthy (JNum n) = (int_of n \<noteq> 0)"
| "js_truthy (JStr s) = (s \<noteq> [])"
| "js_truthy (JArr xs) = True"
| "js_truthy (JObj kvs) = True"

text \<open>\<^verbatim>\<open>typeof v === 'string'\<close> and \<^verbatim>\<open>Array.isArray(v)\<close>.\<close>

fun is_string :: "jsval \<Rightarrow> bool" where
  "is_string (JStr s) = True"
| "is_string v = False"

fun isArray :: "jsval \<Rightarrow> bool" where
  "isArray (JArr xs) = True"
| "isArray v = False"

fun nullish :: "jsval \<Rightarrow> bool" where
  "nullish JUndefined = True"
| "nullish JNull = True"
| "nullish v = False"

text \<open>Reading a property of a plain object: \<^verbatim>\<open>undefined\<close> when the key is absent.\<close>

definition js_prop :: "(string \<times> jsval) list \<Rightarrow> string \<Rightarrow> jsval" where
  "js_prop kvs k = (case map_of kvs k of None \<Rightarrow> JUndefined | Some v \<Rightarrow> v)"

text \<open>\<^verbatim>\<open>Array.prototype.join\<close> on an array of strings.\<close>

fun join :: "string \<Rightarrow> string list \<Rightarrow> string" where
  "join sep [] = []"
| "join sep [x] = x"
| "join sep (x # y # ys) = x @ sep @ join sep (y # ys)"

text \<open>
  Decimal rendering of an integer, as \<^verbatim>\<open>String(n)\<close> prints an integer of magnitude below
  \<open>10^21\<close>.
\<close>

fun string_of_nat :: "nat \<Rightarrow> string" where
  "string_of_nat n =
     (if n < 10 then [''0123456789'' ! n]
      else string_of_nat (n div 10) @ [''0123456789'' ! (n mod 10)])"

definition string_of_int :: "int \<Rightarrow> string" where
  "string_of_int i =
     (if i < 0 then CHR ''-'' # string_of_nat (nat (- i)) else string_of_nat (nat i))"

text \<open>
  \<^verbatim>\<open>String(v)\<close>. An array prints its elements comma-separated, with \<^verbatim>\<open>null\<close> and
  \<^verbatim>\<open>undefined\<close> elements printed as the empty string; a plain object prints as
  \<^verbatim>\<open>[object Object]\<close>.
\<close>

fun js_String :: "jsval \<Rightarrow> string" where
  "js_String JUndefined = ''undefined''"
| "js_String JNull = ''null''"
| "js_String (JBool b) = (if b then ''true'' else ''false'')"
| "js_String (JNum n) = string_of_int (int_of n)"
| "js_String (JStr s) = s"
| "js_String (JArr xs) = join '','' (map (\<lambda>x. if nullish x then [] else js_String x) xs)"
| "js_String (JObj kvs) = ''[object Object]''"

text \<open>
  \<^verbatim>\<open>result?.data\<close>: only a plain object can carry the property; \<^verbatim>\<open>null\<close> and
  \<^verbatim>\<open>undefined\<close> short-circuit, and strings, arrays, numbers and booleans have no such member.
\<close>

fun js_opt_data :: "jsval \<Rightarrow> jsval" where
  "js_opt_data (JObj kvs) = js_prop kvs ''data''"
| "js_opt_data v = JUndefined"

text \<open>
  \<^verbatim>\<open>v?.[i]\<close>: an element of an array, a one-character string of a string, the property
  named by the decimal index of an object; \<^verbatim>\<open>undefined\<close> out of range and on every other
  value.
\<close>

fun js_opt_index :: "jsval \<Rightarrow> nat \<Rightarrow> jsval" where
  "js_opt_index (JArr xs) i = (if i < length xs then xs ! i else JUndefined)"
| "js_opt_index (JStr s) i = (if i < length s then JStr [s ! i] else JUndefined)"
| "js_opt_index (JObj kvs) i = js_prop kvs (string_of_nat i)"
| "js_opt_index v i = JUndefined"

section \<open>Errors\<close>

text \<open>
  A thrown or rejected value is either an instance of \<^verbatim>\<open>Error\<close> with its message, or any
  other value; the \<^verbatim>\<open>catch\<close> block of \<^verbatim>\<open>handleMessage\<close> tells the two apart with
  \<^verbatim>\<open>error instanceof Error\<close>.
\<close>

datatype js_error = JsError string | NonError jsval

text \<open>
  \<^verbatim>\<open>v[i]\<close> without the optional chain raises a \<^verbatim>\<open>TypeError\<close> on \<^verbatim>\<open>null\<close> and
  \<^verbatim>\<open>undefined\<close>. The wording of the message is the engine's; the model fixes one.
\<close>

definition js_member :: "jsval \<Rightarrow> nat \<Rightarrow> js_error + jsval" where
  "js_member v i =
     (if nullish v
      then Inl (JsError (''Cannot read properties of '' @ js_String v @ '' (reading '' @ string_of_nat i @ '')''))
      else Inr (js_opt_index v i))"

section \<open>Text extraction: \<^verbatim>\<open>parseText\<close>\<close>

text \<open>
  \<^verbatim>\<open>const direct = [obj.response, obj.text, obj.output].find((v) => typeof v === 'string')\<close>
\<close>

definition direct_field :: "(string \<times> jsval) list \<Rightarrow> jsval" where
  "direct_field kvs =
     (case List.find is_string
             [js_prop kvs ''response'', js_prop kvs ''text'', js_prop kvs ''output''] of
        None \<Rightarrow> JUndefined
      | Some v \<Rightarrow> v)"

lemma size_js_prop: "size (js_prop kvs k) \<le> size_list (size_prod (\<lambda>_. 0) size) kvs"
  by (induction kvs) (auto simp: js_prop_def)

lemma size_member_le: "x \<in> set xs \<Longrightarrow> size x \<le> size_list size xs"
  by (induction xs) auto

text \<open>
  The equations follow the source's tests in their order: a falsy value gives the empty
  string; a string is returned as it is; an array maps, drops the empty results and joins
  with a newline; an object returns its first string among \<^verbatim>\<open>response\<close>, \<^verbatim>\<open>text\<close>,
  \<^verbatim>\<open>output\<close> when that string is not empty, else treats an array under \<^verbatim>\<open>data\<close> as an
  array; everything left goes through \<^verbatim>\<open>String(data)\<close>.
\<close>

function parseText :: "jsval \<Rightarrow> string" where
  "parseText JUndefined = []"
| "parseText JNull = []"
| "parseText (JBool b) = (if b then js_String (JBool b) else [])"
| "parseText (JNum n) = (if int_of n = 0 then [] else js_String (JNum n))"
| "parseText (JStr s) = s"
| "parseText (JArr xs) = join ''\<newline>'' (filter (\<lambda>s. s \<noteq> []) (map parseText xs))"
| "parseText (JObj kvs) =
     (if js_truthy (direct_field kvs) then str_of (direct_field kvs)
      else case js_prop kvs ''data'' of
             JArr ys \<Rightarrow> join ''\<newline>'' (filter (\<lambda>s. s \<noteq> []) (map parseText ys))
           | _ \<Rightarrow> js_String (JObj kvs))"
  by pat_completeness auto
termination
proof (relation "measure size", goal_cases)
  case 1
  show ?case by simp
next
  case (2 xs x)
  then show ?case using size_member_le [of x xs] by simp
next
  case (3 kvs ys y)
  have "size y \<le> size_list size ys"
    using 3 by (simp add: size_member_le)
  also have "\<dots> < size (js_prop kvs ''data'')"
    using 3 by simp
  also have "\<dots> \<le> size_list (size_prod (\<lambda>_. 0) size) kvs"
    by (rule size_js_prop)
  finally show ?case by simp
qed

section \<open>Inbound events\<close>

text \<open>
  The fields of the event the handler reads: the message, its text, its
  \<^verbatim>\<open>ai_generated\<close> flag and its attachments, each of which may be absent. An attachment
  has a type discriminator and four URL fields, all optional strings, as the chat SDK
  declares them.
\<close>

record attachment =
  att_type :: "string option"
  image_url :: "string option"
  asset_url :: "string option"
  thumb_url :: "string option"
  og_scrape_url :: "string option"

record message =
  msg_text :: "string option"
  ai_generated :: "bool option"
  attachments :: "attachment list option"

record event =
  message :: "message option"

text \<open>\<^verbatim>\<open>a || b\<close> on optional strings: \<^verbatim>\<open>a\<close> when it is a non-empty string, else \<^verbatim>\<open>b\<close>.\<close>

definition js_or :: "string option \<Rightarrow> string option \<Rightarrow> string option" where
  "js_or a b = (case a of None \<Rightarrow> b | Some s \<Rightarrow> if s \<noteq> [] then Some s else b)"

text \<open>\<^verbatim>\<open>a || "literal"\<close>: the optional string when it is non-empty, else the literal.\<close>

definition or_default :: "string option \<Rightarrow> string \<Rightarrow> string" where
  "or_default a d = (case a of None \<Rightarrow> d | Some s \<Rightarrow> if s \<noteq> [] then s else d)"

definition attachment_url :: "attachment \<Rightarrow> string option" where
  "attachment_url a =
     js_or (js_or (js_or (image_url a) (asset_url a)) (thumb_url a)) (og_scrape_url a)"

text \<open>
  \<^verbatim>\<open>attachments.filter(type === "image").map(image_url || asset_url || thumb_url || og_scrape_url)\<close>
  \<^verbatim>\<open>.filter(typeof url === "string" && url.length > 0)\<close>
\<close>

definition imageUrls :: "attachment list \<Rightarrow> string list" where
  "imageUrls atts =
     List.map_filter (\<lambda>u. case u of None \<Rightarrow> None | Some s \<Rightarrow> if s \<noteq> [] then Some s else None)
       (map attachment_url (filter (\<lambda>a. att_type a = Some ''image'') atts))"

text \<open>
  \<^verbatim>\<open>imageUrls.map((url) => mod.handle_file(url))\<close>: the attachment collaborator may throw,
  which ends the map at the first URL it refuses.
\<close>

fun resolve_files :: "(string \<Rightarrow> js_error + jsval) \<Rightarrow> string list \<Rightarrow> js_error + jsval list" where
  "resolve_files h [] = Inr []"
| "resolve_files h (u # us) =
     (case h u of
        Inl err \<Rightarrow> Inl err
      | Inr f \<Rightarrow> (case resolve_files h us of Inl err \<Rightarrow> Inl err | Inr fs \<Rightarrow> Inr (f # fs)))"

text \<open>\<^verbatim>\<open>const userMessage = { text, files }\<close>\<close>

definition userMessage :: "string option \<Rightarrow> jsval list \<Rightarrow> jsval" where
  "userMessage t files =
     JObj [(''text'', case t of None \<Rightarrow> JUndefined | Some s \<Rightarrow> JStr s), (''files'', JArr files)]"

section \<open>The agent and its collaborators\<close>

text \<open>
  The mutable fields of \<^verbatim>\<open>MedgemmaAgent\<close>. The history is typed \<^verbatim>\<open>ChatPair[]\<close> in the
  source, but the handler stores whatever array the endpoint returned without checking its
  elements, so the model keeps a list of untyped values. A connection handle is a number.
\<close>

record agent =
  lastInteractionTs :: nat
  history :: "jsval list"
  gradioClient :: "nat option"

text \<open>The placeholder the chat backend returns from \<^verbatim>\<open>sendMessage\<close>: its id and channel id.\<close>

record msg_ref =
  msg_id :: string
  msg_cid :: string

datatype ai_state = AI_STATE_THINKING | AI_STATE_ERROR

text \<open>
  What the handler does to the channel, in order: \<^verbatim>\<open>sendMessage({text, ai_generated})\<close>,
  \<^verbatim>\<open>sendEvent({type: "ai_indicator.update", ai_state, cid, message_id})\<close>,
  \<^verbatim>\<open>sendEvent({type: "ai_indicator.clear", cid, message_id})\<close> and
  \<^verbatim>\<open>partialUpdateMessage(id, {set: {text}})\<close>.
\<close>

datatype chat_effect =
    SendMessage string bool
  | IndicatorUpdate ai_state string string
  | IndicatorClear string string
  | PartialUpdateText string string

text \<open>The six places after \<^verbatim>\<open>sendMessage\<close> where the handler awaits the chat backend.\<close>

datatype chat_site =
    AtThinking
  | AtReplyUpdate
  | AtReplyClear
  | AtErrorIndicator
  | AtErrorUpdate
  | AtErrorClear

text \<open>
  A promise of the remote endpoint either settles after some milliseconds, resolved
  (\<open>Inr\<close>) or rejected (\<open>Inl\<close>), or never settles.
\<close>

datatype 'a promise = Settles nat "js_error + 'a" | Never

text \<open>
  Everything outside the agent that one run of the handler consults: the clock, the
  process environment, the dynamic import of the Gradio client, \<^verbatim>\<open>Client.connect\<close>,
  \<^verbatim>\<open>handle_file\<close>, \<^verbatim>\<open>predict\<close> (by connection, path and payload), and the chat backend
  (the placeholder it returns or the error it raises, and for each later call site the
  error it raises, if any). Only \<^verbatim>\<open>predict\<close> is modelled as possibly never settling: it is
  the one call the source puts under a timer.
\<close>

record env =
  now :: nat
  GRADIO_BASE_URL :: "string option"
  GRADIO_API_NAME :: "string option"
  GRADIO_PREDICT_PATH :: "string option"
  import_gradio :: "js_error option"
  connect :: "string option \<Rightarrow> js_error + nat"
  handle_file :: "string \<Rightarrow> js_error + jsval"
  predict :: "nat \<Rightarrow> string \<Rightarrow> jsval \<Rightarrow> jsval promise"
  sendMessage :: "js_error + msg_ref"
  chat_fails :: "chat_site \<Rightarrow> js_error option"

text \<open>
  What a run of the handler leaves behind: the agent, the effects that took place on the
  channel in their order, the \<^verbatim>\<open>predict\<close> calls in their order (connection, path,
  payload), and the error the handler's promise rejects with, if any. The order between a
  channel effect and a \<^verbatim>\<open>predict\<close> call is not recorded.
\<close>

record outcome =
  agent_after :: agent
  chat_effects :: "chat_effect list"
  predict_calls :: "(nat \<times> string \<times> jsval) list"
  raised :: "js_error option"

section \<open>The remote call\<close>

text \<open>\<^verbatim>\<open>const apiName = (process.env.GRADIO_API_NAME as string) || "/chat"\<close>\<close>

definition apiName :: "env \<Rightarrow> string" where
  "apiName env = or_default (GRADIO_API_NAME env) ''/chat''"

text \<open>
  The dynamic import, then \<^verbatim>\<open>if (!this.gradioClient) this.gradioClient = await connect(baseUrl)\<close>.
\<close>

definition ensureClient :: "env \<Rightarrow> agent \<Rightarrow> js_error + (agent \<times> nat)" where
  "ensureClient env ag =
     (case import_gradio env of
        Some err \<Rightarrow> Inl err
      | None \<Rightarrow>
          (case gradioClient ag of
             Some c \<Rightarrow> Inr (ag, c)
           | None \<Rightarrow>
               (case connect env (GRADIO_BASE_URL env) of
                  Inl err \<Rightarrow> Inl err
                | Inr c \<Rightarrow> Inr (ag\<lparr>gradioClient := Some c\<rparr>, c))))"

text \<open>
  \<^verbatim>\<open>init\<close>: a missing or empty \<^verbatim>\<open>GRADIO_BASE_URL\<close> is an error; else the client module is
  imported, the connection opened and stored, and the handler subscribed. An agent is active
  once \<^verbatim>\<open>init\<close> has returned, and then holds a connection.
\<close>

definition init :: "env \<Rightarrow> agent \<Rightarrow> js_error + agent" where
  "init env ag =
     (if or_default (GRADIO_BASE_URL env) [] = []
      then Inl (JsError ''GRADIO_BASE_URL is required (set it to your gradio.live share URL, e.g. https://xxxx.gradio.live)'')
      else
        (case import_gradio env of
           Some err \<Rightarrow> Inl err
         | None \<Rightarrow>
             (case connect env (GRADIO_BASE_URL env) of
                Inl err \<Rightarrow> Inl err
              | Inr c \<Rightarrow> Inr (ag\<lparr>gradioClient := Some c\<rparr>))))"

text \<open>The two call styles of \<^verbatim>\<open>tryPredict\<close>.\<close>

definition keyword_payload :: "jsval \<Rightarrow> jsval" where
  "keyword_payload um = JObj [(''message_dict'', um)]"

definition positional_payload :: "jsval \<Rightarrow> jsval list \<Rightarrow> jsval" where
  "positional_payload um hist = JArr [um, JArr hist]"

text \<open>
  \<^verbatim>\<open>tryPredict\<close>: the keyword call; when it rejects, the positional call with the history
  as it stands. The result is the list of calls made and the promise \<^verbatim>\<open>tryPredict()\<close>
  returns, whose settling time is the sum of the attempts'.
\<close>

definition tryPredict ::
  "env \<Rightarrow> jsval list \<Rightarrow> nat \<Rightarrow> string \<Rightarrow> jsval \<Rightarrow> (nat \<times> string \<times> jsval) list \<times> jsval promise" where
  "tryPredict env hist c path um =
     (case predict env c path (keyword_payload um) of
        Never \<Rightarrow> ([(c, path, keyword_payload um)], Never)
      | Settles d1 (Inr v) \<Rightarrow> ([(c, path, keyword_payload um)], Settles d1 (Inr v))
      | Settles d1 (Inl err) \<Rightarrow>
          ([(c, path, keyword_payload um), (c, path, positional_payload um hist)],
           case predict env c path (positional_payload um hist) of
             Never \<Rightarrow> Never
           | Settles d2 r \<Rightarrow> Settles (d1 + d2) r))"

text \<open>
  \<^verbatim>\<open>withTimeout(p, ms)\<close>: the timer rejects with \<^verbatim>\<open>new Error('MedGemma timed out')\<close>
  unless the promise settles first. The promise goes on after the timer fired; its outcome
  is then ignored. Time is counted in whole milliseconds, and a promise that settles in the
  millisecond the timer fires is taken to have lost the race.
\<close>

definition withTimeout :: "jsval promise \<Rightarrow> nat \<Rightarrow> js_error + jsval" where
  "withTimeout p ms =
     (case p of
        Never \<Rightarrow> Inl (JsError ''MedGemma timed out'')
      | Settles d r \<Rightarrow> if d < ms then r else Inl (JsError ''MedGemma timed out''))"

text \<open>
  The \<^verbatim>\<open>try\<close> block up to \<^verbatim>\<open>const result = await withTimeout(tryPredict(), 45000)\<close>: the
  value of \<^verbatim>\<open>result\<close> or the error thrown before it was bound, the agent (whose connection
  may have been opened) and the \<^verbatim>\<open>predict\<close> calls made.
\<close>

definition awaitResult ::
  "env \<Rightarrow> agent \<Rightarrow> message \<Rightarrow> (js_error + jsval) \<times> agent \<times> (nat \<times> string \<times> jsval) list" where
  "awaitResult env ag m =
     (case ensureClient env ag of
        Inl err \<Rightarrow> (Inl err, ag, [])
      | Inr (ag1, c) \<Rightarrow>
          (case resolve_files (handle_file env)
                  (imageUrls (case attachments m of None \<Rightarrow> [] | Some atts \<Rightarrow> atts)) of
             Inl err \<Rightarrow> (Inl err, ag1, [])
           | Inr files \<Rightarrow>
               (case tryPredict env (history ag1) c (apiName env) (userMessage (msg_text m) files) of
                  (calls, p) \<Rightarrow> (withTimeout p 45000, ag1, calls))))"

section \<open>Normalising the result\<close>

text \<open>
  Lines 115 to 126: when \<^verbatim>\<open>result?.data?.[2]\<close> or \<^verbatim>\<open>result?.data?.[1]\<close> is an array, the
  array (the former first) becomes the history and the reply is element 1 of its last
  element; else the reply is \<^verbatim>\<open>parseText(result?.data ?? result)\<close> and the history is left
  alone. The result is the agent and \<^verbatim>\<open>lastReply\<close>, or the \<^verbatim>\<open>TypeError\<close> of reading
  element 1 of a \<^verbatim>\<open>null\<close> or \<^verbatim>\<open>undefined\<close> last element (raised after the history was
  assigned).
\<close>

definition chatbotHistory :: "jsval \<Rightarrow> jsval" where
  "chatbotHistory result = js_opt_index (js_opt_data result) 1"

definition stateHistory :: "jsval \<Rightarrow> jsval" where
  "stateHistory result = js_opt_index (js_opt_data result) 2"

definition adoptResult :: "agent \<Rightarrow> jsval \<Rightarrow> agent \<times> (js_error + jsval)" where
  "adoptResult ag result =
     (if isArray (stateHistory result) \<or> isArray (chatbotHistory result) then
        let newHistory =
              (if isArray (stateHistory result) then arr_of (stateHistory result)
               else if isArray (chatbotHistory result) then arr_of (chatbotHistory result)
               else history ag);
            ag' = ag\<lparr>history := newHistory\<rparr>
        in (ag', if history ag' \<noteq> [] then js_member (last (history ag')) 1 else Inr (JStr []))
      else
        (ag, Inr (JStr (parseText
               (if nullish (js_opt_data result) then result else js_opt_data result)))))"

text \<open>\<^verbatim>\<open>String(lastReply || "")\<close>\<close>

definition reply_text :: "jsval \<Rightarrow> string" where
  "reply_text lastReply = js_String (if js_truthy lastReply then lastReply else JStr [])"

section \<open>The handler\<close>

text \<open>The \<^verbatim>\<open>try\<close> block, run after the effects \<open>tr\<close> on the placeholder \<open>ref\<close>.\<close>

definition tryBody :: "env \<Rightarrow> agent \<Rightarrow> message \<Rightarrow> msg_ref \<Rightarrow> chat_effect list \<Rightarrow> outcome" where
  "tryBody env ag m ref tr =
     (case awaitResult env ag m of
        (Inl err, ag1, calls) \<Rightarrow>
          \<lparr>agent_after = ag1, chat_effects = tr, predict_calls = calls, raised = Some err\<rparr>
      | (Inr result, ag1, calls) \<Rightarrow>
          (case adoptResult ag1 result of
             (ag2, Inl err) \<Rightarrow>
               \<lparr>agent_after = ag2, chat_effects = tr, predict_calls = calls, raised = Some err\<rparr>
           | (ag2, Inr lastReply) \<Rightarrow>
               (case chat_fails env AtReplyUpdate of
                  Some err \<Rightarrow>
                    \<lparr>agent_after = ag2, chat_effects = tr, predict_calls = calls, raised = Some err\<rparr>
                | None \<Rightarrow>
                    (case chat_fails env AtReplyClear of
                       Some err \<Rightarrow>
                         \<lparr>agent_after = ag2,
                          chat_effects = tr @ [PartialUpdateText (msg_id ref) (reply_text lastReply)],
                          predict_calls = calls, raised = Some err\<rparr>
                     | None \<Rightarrow>
                         \<lparr>agent_after = ag2,
                          chat_effects = tr @ [PartialUpdateText (msg_id ref) (reply_text lastReply),
                                               IndicatorClear (msg_cid ref) (msg_id ref)],
                          predict_calls = calls, raised = None\<rparr>))))"

text \<open>
  The diagnostic of the \<^verbatim>\<open>catch\<close> block:
  \<^verbatim>\<open>Gradio call failed (baseUrl=${GRADIO_BASE_URL}, apiName=${GRADIO_API_NAME || GRADIO_PREDICT_PATH || '/chat'})\<close>.
  An unset variable prints as \<^verbatim>\<open>undefined\<close> in a template.
\<close>

definition hint :: "env \<Rightarrow> string" where
  "hint env =
     ''Gradio call failed (baseUrl=''
       @ (case GRADIO_BASE_URL env of None \<Rightarrow> ''undefined'' | Some s \<Rightarrow> s)
       @ '', apiName=''
       @ or_default (js_or (GRADIO_API_NAME env) (GRADIO_PREDICT_PATH env)) ''/chat''
       @ '')''"

definition error_text :: "env \<Rightarrow> js_error \<Rightarrow> string" where
  "error_text env err =
     (case err of
        JsError msg \<Rightarrow> msg @ '' - '' @ hint env
      | NonError v \<Rightarrow> ''Error generating the message - '' @ hint env)"

text \<open>The \<^verbatim>\<open>catch\<close> block, entered with the error and what the \<^verbatim>\<open>try\<close> block left.\<close>

definition catchBody :: "env \<Rightarrow> msg_ref \<Rightarrow> js_error \<Rightarrow> outcome \<Rightarrow> outcome" where
  "catchBody env ref err out =
     (case chat_fails env AtErrorIndicator of
        Some e \<Rightarrow> out\<lparr>raised := Some e\<rparr>
      | None \<Rightarrow>
          (case chat_fails env AtErrorUpdate of
             Some e \<Rightarrow>
               out\<lparr>chat_effects := chat_effects out
                      @ [IndicatorUpdate AI_STATE_ERROR (msg_cid ref) (msg_id ref)],
                    raised := Some e\<rparr>
           | None \<Rightarrow>
               (case chat_fails env AtErrorClear of
                  Some e \<Rightarrow>
                    out\<lparr>chat_effects := chat_effects out
                           @ [IndicatorUpdate AI_STATE_ERROR (msg_cid ref) (msg_id ref),
                              PartialUpdateText (msg_id ref) (error_text env err)],
                         raised := Some e\<rparr>
                | None \<Rightarrow>
                    out\<lparr>chat_effects := chat_effects out
                           @ [IndicatorUpdate AI_STATE_ERROR (msg_cid ref) (msg_id ref),
                              PartialUpdateText (msg_id ref) (error_text env err),
                              IndicatorClear (msg_cid ref) (msg_id ref)],
                         raised := None\<rparr>)))"

text \<open>
  \<^verbatim>\<open>handleMessage\<close>: the guard, the timestamp, the placeholder and the
  \<^verbatim>\<open>AI_STATE_THINKING\<close> indicator (both outside the \<^verbatim>\<open>try\<close>, so their failure rejects the
  handler), then the \<^verbatim>\<open>try\<close> block and, when it throws, the \<^verbatim>\<open>catch\<close> block. One run is one
  exchange; runs that overlap in time are not modelled.
\<close>

definition handleMessage :: "env \<Rightarrow> agent \<Rightarrow> event \<Rightarrow> outcome" where
  "handleMessage env ag e =
     (case message e of
        None \<Rightarrow> \<lparr>agent_after = ag, chat_effects = [], predict_calls = [], raised = None\<rparr>
      | Some m \<Rightarrow>
          if ai_generated m = Some True
          then \<lparr>agent_after = ag, chat_effects = [], predict_calls = [], raised = None\<rparr>
          else
            (case sendMessage env of
               Inl err \<Rightarrow>
                 \<lparr>agent_after = ag\<lparr>lastInteractionTs := now env\<rparr>, chat_effects = [],
                  predict_calls = [], raised = Some err\<rparr>
             | Inr ref \<Rightarrow>
                 (case chat_fails env AtThinking of
                    Some err \<Rightarrow>
                      \<lparr>agent_after = ag\<lparr>lastInteractionTs := now env\<rparr>,
                       chat_effects = [SendMessage [] True],
                       predict_calls = [], raised = Some err\<rparr>
                  | None \<Rightarrow>
                      (let out = tryBody env (ag\<lparr>lastInteractionTs := now env\<rparr>) m ref
                                   [SendMessage [] True,
                                    IndicatorUpdate AI_STATE_THINKING (msg_cid ref) (msg_id ref)]
                       in case raised out of
                            None \<Rightarrow> out
                          | Some err \<Rightarrow> catchBody env ref err out))))"

section \<open>Disposal\<close>

text \<open>
  \<^verbatim>\<open>dispose\<close> unsubscribes, closes the connection inside \<^verbatim>\<open>try { ... } catch {}\<close> without
  awaiting it, and awaits \<^verbatim>\<open>disconnectUser()\<close>. \<^verbatim>\<open>close\<close> may return, throw, or return a
  promise that rejects later.
\<close>

datatype close_result = CloseReturns | CloseThrows js_error | CloseRejectsLater js_error

record dispose_env =
  off_throws :: "js_error option"
  close_result :: close_result
  disconnect_fails :: "js_error option"

datatype dispose_effect = Unsubscribe | CloseConnection nat | DisconnectUser

record dispose_outcome =
  dispose_effects :: "dispose_effect list"
  dispose_raised :: "js_error option"
  unhandled_rejection :: "js_error option"

definition dispose :: "dispose_env \<Rightarrow> agent \<Rightarrow> dispose_outcome" where
  "dispose denv ag =
     (case off_throws denv of
        Some err \<Rightarrow>
          \<lparr>dispose_effects = [], dispose_raised = Some err, unhandled_rejection = None\<rparr>
      | None \<Rightarrow>
          (let closing = (case gradioClient ag of None \<Rightarrow> [] | Some c \<Rightarrow> [CloseConnection c]);
               later = (case gradioClient ag of
                          None \<Rightarrow> None
                        | Some c \<Rightarrow>
                            (case close_result denv of
                               CloseRejectsLater err \<Rightarrow> Some err
                             | _ \<Rightarrow> None))
           in case disconnect_fails denv of
                Some err \<Rightarrow>
                  \<lparr>dispose_effects = Unsubscribe # closing, dispose_raised = Some err,
                   unhandled_rejection = later\<rparr>
              | None \<Rightarrow>
                  \<lparr>dispose_effects = Unsubscribe # closing @ [DisconnectUser],
                   dispose_raised = None, unhandled_rejection = later\<rparr>))"

section \<open>Observations on a run\<close>

text \<open>
  The value bound to \<^verbatim>\<open>result\<close> in a run of the handler, when the run gets that far: the
  message passes the guard, the placeholder and the first indicator are accepted, and
  nothing throws before the awaited call resolves within its bound.
\<close>

definition remote_result :: "env \<Rightarrow> agent \<Rightarrow> event \<Rightarrow> jsval option" where
  "remote_result env ag e =
     (case message e of
        None \<Rightarrow> None
      | Some m \<Rightarrow>
          if ai_generated m = Some True then None
          else
            (case sendMessage env of
               Inl err \<Rightarrow> None
             | Inr ref \<Rightarrow>
                 (case chat_fails env AtThinking of
                    Some err \<Rightarrow> None
                  | None \<Rightarrow>
                      (case fst (awaitResult env (ag\<lparr>lastInteractionTs := now env\<rparr>) m) of
                         Inl err \<Rightarrow> None
                       | Inr result \<Rightarrow> Some result))))"

text \<open>
  What the \<^verbatim>\<open>try\<close> block of a run holds when it reaches line 128: the value of
  \<^verbatim>\<open>lastReply\<close>, or the error thrown before that line (by the import, the connection, the
  file collaborator, the awaited call or its timer, or the read of the last pair).
\<close>

definition exchange_reply :: "env \<Rightarrow> agent \<Rightarrow> message \<Rightarrow> js_error + jsval" where
  "exchange_reply env ag m =
     (case awaitResult env (ag\<lparr>lastInteractionTs := now env\<rparr>) m of
        (Inl err, ag1, calls) \<Rightarrow> Inl err
      | (Inr result, ag1, calls) \<Rightarrow> snd (adoptResult ag1 result))"

text \<open>The kinds of channel effect the specification counts.\<close>

fun is_placeholder_creation :: "chat_effect \<Rightarrow> bool" where
  "is_placeholder_creation (SendMessage t ai) = True"
| "is_placeholder_creation x = False"

fun is_indicator_clear :: "chat_effect \<Rightarrow> bool" where
  "is_indicator_clear (IndicatorClear cid mid) = True"
| "is_indicator_clear x = False"

fun is_text_mutation :: "chat_effect \<Rightarrow> bool" where
  "is_text_mutation (PartialUpdateText mid t) = True"
| "is_text_mutation x = False"

text \<open>Whether a string occurs in another, as \<^verbatim>\<open>String.prototype.includes\<close> tests it.\<close>

fun starts_with :: "string \<Rightarrow> string \<Rightarrow> bool" where
  "starts_with s [] = True"
| "starts_with [] (p # ps) = False"
| "starts_with (c # cs) (p # ps) = (c = p \<and> starts_with cs ps)"

fun str_includes :: "string \<Rightarrow> string \<Rightarrow> bool" where
  "str_includes [] p = (p = [])"
| "str_includes (c # cs) p = (starts_with (c # cs) p \<or> str_includes cs p)"

section \<open>The specification's wording, for comparison\<close>

text \<open>
  A history as the source types it (\<^verbatim>\<open>type ChatPair = [string, string]\<close>): every element is
  an array of two strings, the user's text and the assistant's.
\<close>

fun chat_pair :: "jsval \<Rightarrow> bool" where
  "chat_pair (JArr [JStr u, JStr a]) = True"
| "chat_pair v = False"

fun assistant_text :: "jsval \<Rightarrow> string" where
  "assistant_text (JArr [u, JStr a]) = a"
| "assistant_text v = []"





text \<open>
  The specification's attachment rule: of the image attachments, in order, the first
  non-empty URL of \<^verbatim>\<open>image_url\<close>, \<^verbatim>\<open>asset_url\<close>, \<^verbatim>\<open>thumb_url\<close>, \<^verbatim>\<open>og_scrape_url\<close>; an
  attachment with none is dropped.
\<close>

fun first_nonempty :: "string option list \<Rightarrow> string option" where
  "first_nonempty [] = None"
| "first_nonempty (None # us) = first_nonempty us"
| "first_nonempty (Some s # us) = (if s \<noteq> [] then Some s else first_nonempty us)"

definition spec_image_urls :: "attachment list \<Rightarrow> string list" where
  "spec_image_urls atts =
     List.map_filter
       (\<lambda>a. first_nonempty [image_url a, asset_url a, thumb_url a, og_scrape_url a])
       (filter (\<lambda>a. att_type a = Some ''image'') atts)"

text \<open>The specification's primary call style, \<^verbatim>\<open>{message: payload}\<close>.\<close>

definition spec_keyword_payload :: "jsval \<Rightarrow> jsval" where
  "spec_keyword_payload um = JObj [(''message'', um)]"

text \<open>The specification's local accumulation: the pair of the round, appended.\<close>

definition spec_local_append :: "jsval list \<Rightarrow> string \<Rightarrow> string \<Rightarrow> jsval list" where
  "spec_local_append hist userText reply = hist @ [JArr [JStr userText, JStr reply]]"

section \<open>A concrete setting\<close>

text \<open>
  An endpoint at \<^verbatim>\<open>https://demo.gradio.live\<close> with the default call path, an initialised
  agent with one stored turn, a chat backend that accepts every call, and a file
  collaborator that wraps the URL.
\<close>

definition demo_handle :: "string \<Rightarrow> jsval" where
  "demo_handle u = JObj [(''url'', JStr u)]"

definition demo_env :: "(nat \<Rightarrow> string \<Rightarrow> jsval \<Rightarrow> jsval promise) \<Rightarrow> env" where
  "demo_env p =
     \<lparr>now = 1000,
      GRADIO_BASE_URL = Some ''https://demo.gradio.live'',
      GRADIO_API_NAME = None,
      GRADIO_PREDICT_PATH = None,
      import_gradio = None,
      connect = (\<lambda>b. Inr 1),
      handle_file = (\<lambda>u. Inr (demo_handle u)),
      predict = p,
      sendMessage = Inr \<lparr>msg_id = ''m1'', msg_cid = ''messaging:c1''\<rparr>,
      chat_fails = (\<lambda>s. None)\<rparr>"

definition demo_agent :: agent where
  "demo_agent =
     \<lparr>lastInteractionTs = 0,
      history = [JArr [JStr ''hello'', JStr ''hi there'']],
      gradioClient = Some 1\<rparr>"

definition resolves :: "jsval \<Rightarrow> nat \<Rightarrow> string \<Rightarrow> jsval \<Rightarrow> jsval promise" where
  "resolves r = (\<lambda>c path v. Settles 10 (Inr r))"

definition never_settles :: "nat \<Rightarrow> string \<Rightarrow> jsval \<Rightarrow> jsval promise" where
  "never_settles = (\<lambda>c path v. Never)"

text \<open>Results of the shapes the handler tells apart.\<close>

definition text_result :: jsval where
  "text_result =
     JObj [(''data'', JArr [JStr [], JObj [(''response'', JStr ''hello'')], JStr ''world''])]"

definition leaf_result :: jsval where
  "leaf_result = JObj [(''data'', JArr [JStr ''a'', JBool True])]"

definition mixed_result :: jsval where
  "mixed_result =
     JObj [(''data'',
            JArr [JStr ''a'',
                  JNum (num 42),
                  JObj [(''response'', JStr []), (''text'', JStr ''hi'')],
                  JArr [JBool False, JObj [(''data'', JArr [JStr ''b'', JBool True])]]])]"

definition both_slots_result :: jsval where
  "both_slots_result =
     JObj [(''data'',
            JArr [JNull,
                  JArr [JArr [JStr ''q'', JStr ''from the chatbot slot'']],
                  JArr [JArr [JStr ''q'', JStr ''from the state slot'']]])]"

definition chatbot_slot_result :: jsval where
  "chatbot_slot_result =
     JObj [(''data'', JArr [JNull, JArr [JArr [JStr ''q'', JStr ''from the chatbot slot'']]])]"

definition keyword_rejected :: "jsval \<Rightarrow> nat \<Rightarrow> string \<Rightarrow> jsval \<Rightarrow> jsval promise" where
  "keyword_rejected r =
     (\<lambda>c path v. case v of
        JObj kvs \<Rightarrow> Settles 10 (Inl (JsError ''unexpected keyword argument''))
      | _ \<Rightarrow> Settles 10 (Inr r))"

definition always_rejects :: "nat \<Rightarrow> string \<Rightarrow> jsval \<Rightarrow> jsval promise" where
  "always_rejects = (\<lambda>c path v. Settles 10 (Inl (JsError ''endpoint unavailable'')))"

text \<open>
  The same endpoint with \<^verbatim>\<open>GRADIO_PREDICT_PATH\<close> set and \<^verbatim>\<open>GRADIO_API_NAME\<close> unset, and a
  call that never settles.
\<close>

definition legacy_path_env :: env where
  "legacy_path_env = (demo_env never_settles)\<lparr>GRADIO_PREDICT_PATH := Some ''/predict''\<rparr>"

text \<open>An agent whose \<^verbatim>\<open>init\<close> never ran: no connection, no history.\<close>

definition fresh_agent :: agent where
  "fresh_agent = \<lparr>lastInteractionTs = 0, history = [], gradioClient = None\<rparr>"

definition user_event :: "string \<Rightarrow> attachment list \<Rightarrow> event" where
  "user_event t atts =
     \<lparr>message = Some \<lparr>msg_text = Some t, ai_generated = None, attachments = Some atts\<rparr>\<rparr>"

definition image_attachment :: "string option \<Rightarrow> string option \<Rightarrow> attachment" where
  "image_attachment iu tu =
     \<lparr>att_type = Some ''image'', image_url = iu, asset_url = None, thumb_url = tu,
      og_scrape_url = None\<rparr>"

definition file_attachment :: attachment where
  "file_attachment =
     \<lparr>att_type = Some ''file'', image_url = None, asset_url = None, thumb_url = None,
      og_scrape_url = None\<rparr>"

section \<open>Unfolding the model on concrete inputs\<close>

lemmas run_defs =
  handleMessage_def tryBody_def catchBody_def awaitResult_def ensureClient_def tryPredict_def
  withTimeout_def adoptResult_def chatbotHistory_def stateHistory_def reply_text_def
  error_text_def hint_def apiName_def or_default_def js_or_def js_prop_def js_member_def direct_field_def
  userMessage_def keyword_payload_def positional_payload_def imageUrls_def attachment_url_def
  List.map_filter_def remote_result_def exchange_reply_def

lemmas demo_defs =
  demo_env_def demo_agent_def user_event_def resolves_def never_settles_def demo_handle_def
  text_result_def leaf_result_def mixed_result_def both_slots_result_def chatbot_slot_result_def
  image_attachment_def file_attachment_def keyword_rejected_def always_rejects_def
  legacy_path_env_def fresh_agent_def

section \<open>Facts about one run of the handler\<close>

text \<open>
  The connection step and the awaited call leave the history alone; only the
  normalisation of the result assigns it.
\<close>

lemma init_sets_client:
  "init env ag = Inr ag' \<Longrightarrow> (\<exists>c. gradioClient ag' = Some c) \<and> history ag' = history ag"
  by (auto simp: init_def split: if_splits option.splits sum.splits)

lemma ensureClient_history:
  "ensureClient env ag = Inr (ag1, c) \<Longrightarrow> history ag1 = history ag"
  by (auto simp: ensureClient_def split: option.splits sum.splits)

lemma awaitResult_history: "history (fst (snd (awaitResult env ag m))) = history ag"
  by (auto simp: awaitResult_def split: sum.splits prod.splits dest: ensureClient_history)

lemma adoptResult_history:
  "history (fst (adoptResult ag result)) =
     (if isArray (stateHistory result) then arr_of (stateHistory result)
      else if isArray (chatbotHistory result) then arr_of (chatbotHistory result)
      else history ag)"
  by (simp add: adoptResult_def Let_def)

lemma adoptResult_reply_cong:
  "history a = history b \<Longrightarrow> snd (adoptResult a r) = snd (adoptResult b r)"
  by (simp add: adoptResult_def Let_def)

lemma catchBody_agent: "agent_after (catchBody env ref err out) = agent_after out"
  by (simp add: catchBody_def split: option.splits)

lemma catchBody_calls: "predict_calls (catchBody env ref err out) = predict_calls out"
  by (simp add: catchBody_def split: option.splits)

lemma tryBody_agent:
  "agent_after (tryBody env ag m ref tr) =
     (case awaitResult env ag m of
        (Inl err, ag1, calls) \<Rightarrow> ag1
      | (Inr result, ag1, calls) \<Rightarrow> fst (adoptResult ag1 result))"
  by (simp add: tryBody_def split: prod.splits sum.splits option.splits)

lemma tryBody_calls:
  "predict_calls (tryBody env ag m ref tr) = snd (snd (awaitResult env ag m))"
  by (simp add: tryBody_def split: prod.splits sum.splits option.splits)

lemma handleMessage_history:
  "history (agent_after (handleMessage env ag e)) =
     (case remote_result env ag e of
        None \<Rightarrow> history ag
      | Some result \<Rightarrow> history (fst (adoptResult ag result)))"
proof (cases "message e")
  case None
  then show ?thesis by (simp add: handleMessage_def remote_result_def)
next
  case (Some m)
  show ?thesis
  proof (cases "ai_generated m = Some True \<or> (\<exists>err. sendMessage env = Inl err) \<or> (\<exists>err. chat_fails env AtThinking = Some err)")
    case True
    then show ?thesis using Some
      by (auto simp: handleMessage_def remote_result_def split: sum.splits option.splits)
  next
    case False
    then obtain ref where r: "sendMessage env = Inr ref" and t: "chat_fails env AtThinking = None"
      and g: "ai_generated m \<noteq> Some True"
      by (cases "sendMessage env") auto
    let ?ag = "ag\<lparr>lastInteractionTs := now env\<rparr>"
    obtain res ag1 calls where a: "awaitResult env ?ag m = (res, ag1, calls)"
      by (cases "awaitResult env ?ag m") auto
    have h1: "history ag1 = history ag"
      using awaitResult_history [of env ?ag m] a by simp
    have "history (agent_after (handleMessage env ag e)) =
            history (agent_after (tryBody env ?ag m ref
              [SendMessage [] True, IndicatorUpdate AI_STATE_THINKING (msg_cid ref) (msg_id ref)]))"
      using Some r t g by (simp add: handleMessage_def Let_def catchBody_agent split: option.splits)
    also have "\<dots> = (case res of Inl err \<Rightarrow> history ag | Inr result \<Rightarrow> history (fst (adoptResult ag result)))"
      using a h1 by (simp add: tryBody_agent adoptResult_history split: sum.splits)
    finally show ?thesis
      using Some r t g a by (simp add: remote_result_def split: sum.splits)
  qed
qed

text \<open>
  When the chat backend accepts the calls of a block, the block has one shape per outcome
  of the remote side.
\<close>

lemma tryBody_accepted:
  assumes "chat_fails env AtReplyUpdate = None" and "chat_fails env AtReplyClear = None"
  shows "tryBody env ag m ref tr =
     (case awaitResult env ag m of
        (Inl err, ag1, calls) \<Rightarrow>
          \<lparr>agent_after = ag1, chat_effects = tr, predict_calls = calls, raised = Some err\<rparr>
      | (Inr result, ag1, calls) \<Rightarrow>
          (case adoptResult ag1 result of
             (ag2, Inl err) \<Rightarrow>
               \<lparr>agent_after = ag2, chat_effects = tr, predict_calls = calls, raised = Some err\<rparr>
           | (ag2, Inr lastReply) \<Rightarrow>
               \<lparr>agent_after = ag2,
                chat_effects = tr @ [PartialUpdateText (msg_id ref) (reply_text lastReply),
                                     IndicatorClear (msg_cid ref) (msg_id ref)],
                predict_calls = calls, raised = None\<rparr>))"
  using assms by (simp add: tryBody_def split: prod.splits sum.splits)

lemma catchBody_accepted:
  assumes "chat_fails env AtErrorIndicator = None" and "chat_fails env AtErrorUpdate = None"
    and "chat_fails env AtErrorClear = None"
  shows "catchBody env ref err out =
     out\<lparr>chat_effects := chat_effects out
           @ [IndicatorUpdate AI_STATE_ERROR (msg_cid ref) (msg_id ref),
              PartialUpdateText (msg_id ref) (error_text env err),
              IndicatorClear (msg_cid ref) (msg_id ref)],
         raised := None\<rparr>"
  using assms by (simp add: catchBody_def)

lemma handleMessage_effects:
  assumes m: "message e = Some m" and g: "ai_generated m \<noteq> Some True"
    and r: "sendMessage env = Inr ref" and ok: "\<forall>s. chat_fails env s = None"
  shows "chat_effects (handleMessage env ag e) =
     [SendMessage [] True, IndicatorUpdate AI_STATE_THINKING (msg_cid ref) (msg_id ref)] @
     (case (case fst (awaitResult env (ag\<lparr>lastInteractionTs := now env\<rparr>) m) of
              Inl err \<Rightarrow> Inl err
            | Inr result \<Rightarrow> snd (adoptResult ag result)) of
        Inl err \<Rightarrow>
          [IndicatorUpdate AI_STATE_ERROR (msg_cid ref) (msg_id ref),
           PartialUpdateText (msg_id ref) (error_text env err),
           IndicatorClear (msg_cid ref) (msg_id ref)]
      | Inr lastReply \<Rightarrow>
          [PartialUpdateText (msg_id ref) (reply_text lastReply),
           IndicatorClear (msg_cid ref) (msg_id ref)])"
    and "raised (handleMessage env ag e) = None"
proof -
  let ?ag = "ag\<lparr>lastInteractionTs := now env\<rparr>"
  let ?tr = "[SendMessage [] True, IndicatorUpdate AI_STATE_THINKING (msg_cid ref) (msg_id ref)]"
  obtain res ag1 calls where a: "awaitResult env ?ag m = (res, ag1, calls)"
    by (cases "awaitResult env ?ag m") auto
  have h1: "history ag1 = history ag"
    using awaitResult_history [of env ?ag m] a by simp
  have hm: "handleMessage env ag e =
      (let out = tryBody env ?ag m ref ?tr
       in case raised out of None \<Rightarrow> out | Some err \<Rightarrow> catchBody env ref err out)"
    using m g r ok by (simp add: handleMessage_def)
  have tb: "tryBody env ?ag m ref ?tr =
      (case res of
         Inl err \<Rightarrow> \<lparr>agent_after = ag1, chat_effects = ?tr, predict_calls = calls, raised = Some err\<rparr>
       | Inr result \<Rightarrow>
          (case adoptResult ag1 result of
             (ag2, Inl err) \<Rightarrow>
               \<lparr>agent_after = ag2, chat_effects = ?tr, predict_calls = calls, raised = Some err\<rparr>
           | (ag2, Inr lastReply) \<Rightarrow>
               \<lparr>agent_after = ag2,
                chat_effects = ?tr @ [PartialUpdateText (msg_id ref) (reply_text lastReply),
                                     IndicatorClear (msg_cid ref) (msg_id ref)],
                predict_calls = calls, raised = None\<rparr>))"
    using ok a by (simp add: tryBody_accepted split: sum.splits)
  show "chat_effects (handleMessage env ag e) =
     ?tr @
     (case (case fst (awaitResult env ?ag m) of
              Inl err \<Rightarrow> Inl err
            | Inr result \<Rightarrow> snd (adoptResult ag result)) of
        Inl err \<Rightarrow>
          [IndicatorUpdate AI_STATE_ERROR (msg_cid ref) (msg_id ref),
           PartialUpdateText (msg_id ref) (error_text env err),
           IndicatorClear (msg_cid ref) (msg_id ref)]
      | Inr lastReply \<Rightarrow>
          [PartialUpdateText (msg_id ref) (reply_text lastReply),
           IndicatorClear (msg_cid ref) (msg_id ref)])"
  proof (cases res)
    case (Inl err)
    then show ?thesis using hm tb a ok by (simp add: catchBody_accepted)
  next
    case (Inr result)
    obtain ag2 rep where ad: "adoptResult ag1 result = (ag2, rep)"
      by (cases "adoptResult ag1 result") auto
    have "snd (adoptResult ag result) = rep"
      using adoptResult_reply_cong [OF h1, of result] ad by simp
    then show ?thesis using hm tb a ok Inr ad
      by (cases rep) (simp_all add: catchBody_accepted)
  qed
  show "raised (handleMessage env ag e) = None"
  proof (cases res)
    case (Inl err)
    then show ?thesis using hm tb ok by (simp add: catchBody_accepted)
  next
    case (Inr result)
    obtain ag2 rep where ad: "adoptResult ag1 result = (ag2, rep)"
      by (cases "adoptResult ag1 result") auto
    then show ?thesis using hm tb ok Inr
      by (cases rep) (simp_all add: catchBody_accepted)
  qed
qed

lemma exchange_reply_eq:
  "exchange_reply env ag m =
     (case fst (awaitResult env (ag\<lparr>lastInteractionTs := now env\<rparr>) m) of
        Inl err \<Rightarrow> Inl err
      | Inr result \<Rightarrow> snd (adoptResult ag result))"
proof -
  let ?ag = "ag\<lparr>lastInteractionTs := now env\<rparr>"
  obtain res ag1 calls where a: "awaitResult env ?ag m = (res, ag1, calls)"
    by (cases "awaitResult env ?ag m") auto
  have "history ag1 = history ag"
    using awaitResult_history [of env ?ag m] a by simp
  then have "snd (adoptResult ag1 r) = snd (adoptResult ag r)" for r
    by (rule adoptResult_reply_cong)
  then show ?thesis
    using a by (simp add: exchange_reply_def split: sum.splits)
qed

lemma remote_result_SomeD:
  assumes "remote_result env ag e = Some result"
  obtains m ref where "message e = Some m" and "ai_generated m \<noteq> Some True"
    and "sendMessage env = Inr ref" and "chat_fails env AtThinking = None"
    and "fst (awaitResult env (ag\<lparr>lastInteractionTs := now env\<rparr>) m) = Inr result"
  using assms
  by (auto simp: remote_result_def split: option.splits if_splits sum.splits)

lemma handleMessage_replied:
  assumes rr: "remote_result env ag e = Some result" and r: "sendMessage env = Inr ref"
    and u: "chat_fails env AtReplyUpdate = None" and c: "chat_fails env AtReplyClear = None"
    and a: "snd (adoptResult ag result) = Inr lastReply"
  shows "chat_effects (handleMessage env ag e) =
           [SendMessage [] True,
            IndicatorUpdate AI_STATE_THINKING (msg_cid ref) (msg_id ref),
            PartialUpdateText (msg_id ref) (reply_text lastReply),
            IndicatorClear (msg_cid ref) (msg_id ref)]"
proof -
  let ?ag = "ag\<lparr>lastInteractionTs := now env\<rparr>"
  let ?tr = "[SendMessage [] True, IndicatorUpdate AI_STATE_THINKING (msg_cid ref) (msg_id ref)]"
  from rr r obtain m where m: "message e = Some m" and g: "ai_generated m \<noteq> Some True"
    and t: "chat_fails env AtThinking = None"
    and w: "fst (awaitResult env ?ag m) = Inr result"
    by (auto elim!: remote_result_SomeD)
  obtain ag1 calls where aw: "awaitResult env ?ag m = (Inr result, ag1, calls)"
    using w by (cases "awaitResult env ?ag m") auto
  have h1: "history ag1 = history ag"
    using awaitResult_history [of env ?ag m] aw by simp
  obtain ag2 where ad: "adoptResult ag1 result = (ag2, Inr lastReply)"
    using adoptResult_reply_cong [OF h1, of result] a
    by (cases "adoptResult ag1 result") auto
  have "tryBody env ?ag m ref ?tr =
          \<lparr>agent_after = ag2,
           chat_effects = ?tr @ [PartialUpdateText (msg_id ref) (reply_text lastReply),
                                IndicatorClear (msg_cid ref) (msg_id ref)],
           predict_calls = calls, raised = None\<rparr>"
    using aw ad by (simp add: tryBody_accepted [OF u c])
  then show ?thesis
    using m g r t by (simp add: handleMessage_def)
qed

text \<open>
  With the client module loaded, a connection in place and every file resolved, the run
  reaches \<^verbatim>\<open>tryPredict\<close>.
\<close>

lemma awaitResult_active:
  assumes "import_gradio env = None" and "gradioClient ag = Some c"
    and "resolve_files (handle_file env)
           (imageUrls (case attachments m of None \<Rightarrow> [] | Some atts \<Rightarrow> atts)) = Inr files"
  shows "awaitResult env ag m =
     (withTimeout (snd (tryPredict env (history ag) c (apiName env) (userMessage (msg_text m) files))) 45000,
      ag,
      fst (tryPredict env (history ag) c (apiName env) (userMessage (msg_text m) files)))"
  using assms by (simp add: awaitResult_def ensureClient_def split: prod.splits)

lemma handleMessage_calls:
  assumes m: "message e = Some m" and g: "ai_generated m \<noteq> Some True"
    and r: "sendMessage env = Inr ref" and t: "chat_fails env AtThinking = None"
    and i: "import_gradio env = None" and c: "gradioClient ag = Some c"
    and f: "resolve_files (handle_file env)
           (imageUrls (case attachments m of None \<Rightarrow> [] | Some atts \<Rightarrow> atts)) = Inr files"
  shows "predict_calls (handleMessage env ag e) =
           fst (tryPredict env (history ag) c (apiName env) (userMessage (msg_text m) files))"
proof -
  let ?ag = "ag\<lparr>lastInteractionTs := now env\<rparr>"
  have "gradioClient ?ag = Some c" using c by simp
  from awaitResult_active [OF i this, of m files] f
  have "snd (snd (awaitResult env ?ag m)) =
          fst (tryPredict env (history ag) c (apiName env) (userMessage (msg_text m) files))"
    by simp
  then show ?thesis
    using m g r t
    by (simp add: handleMessage_def Let_def tryBody_calls catchBody_calls split: option.splits)
qed

lemma handleMessage_awaited:
  assumes i: "import_gradio env = None" and c: "gradioClient ag = Some c"
    and f: "resolve_files (handle_file env)
           (imageUrls (case attachments m of None \<Rightarrow> [] | Some atts \<Rightarrow> atts)) = Inr files"
  shows "fst (awaitResult env (ag\<lparr>lastInteractionTs := now env\<rparr>) m) =
           withTimeout (snd (tryPredict env (history ag) c (apiName env)
                               (userMessage (msg_text m) files))) 45000"
proof -
  have "gradioClient (ag\<lparr>lastInteractionTs := now env\<rparr>) = Some c" using c by simp
  from awaitResult_active [OF i this, of m files] f show ?thesis by simp
qed

section \<open>Facts about the pure parts\<close>













lemma chat_pair_member:
  "chat_pair v \<Longrightarrow> js_member v (Suc 0) = Inr (JStr (assistant_text v))"
  by (induction v rule: chat_pair.induct) (simp_all add: js_member_def)

lemma reply_text_string: "reply_text (JStr s) = s"
  by (simp add: reply_text_def)

lemma adoptResult_pairs:
  assumes "stateHistory result = JArr H
             \<or> (\<not> isArray (stateHistory result) \<and> chatbotHistory result = JArr H)"
    and "list_all chat_pair H"
  shows "snd (adoptResult ag result) = Inr (JStr (if H = [] then [] else assistant_text (last H)))"
proof -
  have "H \<noteq> [] \<Longrightarrow> chat_pair (last H)"
    using assms(2) by (simp add: list_all_iff)
  then show ?thesis
    using assms(1) by (auto simp: adoptResult_def Let_def chat_pair_member)
qed


lemma resolve_files_total:
  "\<forall>u. h u = Inr (f u) \<Longrightarrow> resolve_files h us = Inr (map f us)"
  by (induction us) simp_all

lemma attachment_url_first:
  "(case attachment_url a of None \<Rightarrow> None | Some s \<Rightarrow> if s \<noteq> [] then Some s else None) =
     first_nonempty [image_url a, asset_url a, thumb_url a, og_scrape_url a]"
  by (simp add: attachment_url_def js_or_def split: option.splits)

lemma imageUrls_spec: "imageUrls atts = spec_image_urls atts"
  by (induction atts)
     (simp_all add: imageUrls_def spec_image_urls_def List.map_filter_def attachment_url_first
        split: option.splits)

lemma starts_with_append: "starts_with (p @ s) p"
  by (induction p) simp_all

lemma str_includes_append: "str_includes (a @ b @ c) b"
proof (induction a)
  case Nil
  show ?case by (cases "b @ c") (use starts_with_append [of b c] in auto)
next
  case (Cons x a)
  then show ?case by simp
qed

section \<open>The loop-prevention guard\<close>

text \<open>
  C1. A message flagged \<^verbatim>\<open>ai_generated\<close> makes the handler return at its first line: the
  agent is left as it was (the timestamp included), nothing is sent to the channel, no
  \<^verbatim>\<open>predict\<close> call is made, and the handler does not raise.
\<close>

theorem machine_generated_ignored:
  assumes "message e = Some m" and "ai_generated m = Some True"
  shows "handleMessage env ag e =
           \<lparr>agent_after = ag, chat_effects = [], predict_calls = [], raised = None\<rparr>"
  using assms by (simp add: handleMessage_def)

text \<open>
  The guard on a flagged message of the demo channel.
\<close>

theorem machine_generated_ignored_witness:
  "handleMessage (demo_env (\<lambda>c p v. Settles 10 (Inr (JStr ''ok'')))) demo_agent
     \<lparr>message = Some \<lparr>msg_text = Some ''ok'', ai_generated = Some True, attachments = None\<rparr>\<rparr>
   = \<lparr>agent_after = demo_agent, chat_effects = [], predict_calls = [], raised = None\<rparr>"
  by (rule machine_generated_ignored [where m = "\<lparr>msg_text = Some ''ok'', ai_generated = Some True, attachments = None\<rparr>"]) simp_all

section \<open>One placeholder, one clear, one text mutation\<close>

text \<open>
  C2. For a message that is not flagged, on a chat backend that accepts the calls of the
  exchange, whatever the remote side does (a result of any shape, a rejection, a timeout, a
  file the collaborator refuses, a malformed history), the channel sees the placeholder
  (empty text, flagged machine-generated), the thinking indicator, and then either the text
  mutation with \<^verbatim>\<open>String(lastReply || "")\<close> and the clear, or the error indicator, the text
  mutation with the error's message (or \<^verbatim>\<open>Error generating the message\<close> for a thrown
  value that is no \<^verbatim>\<open>Error\<close>) followed by \<^verbatim>\<open> - \<close> and the diagnostic, and the clear. So
  exactly one placeholder is created, exactly one clear is sent, and it is the last effect,
  exactly one text mutation is made, on that placeholder, with the reply or an error
  string, and the handler does not raise.
\<close>

theorem exchange_effects_once:
  assumes "message e = Some m" and "ai_generated m \<noteq> Some True"
    and "sendMessage env = Inr ref" and "\<forall>s. chat_fails env s = None"
  shows "chat_effects (handleMessage env ag e) =
           [SendMessage [] True, IndicatorUpdate AI_STATE_THINKING (msg_cid ref) (msg_id ref)] @
           (case exchange_reply env ag m of
              Inr lastReply \<Rightarrow>
                [PartialUpdateText (msg_id ref)
                   (js_String (if js_truthy lastReply then lastReply else JStr [])),
                 IndicatorClear (msg_cid ref) (msg_id ref)]
            | Inl (JsError msg) \<Rightarrow>
                [IndicatorUpdate AI_STATE_ERROR (msg_cid ref) (msg_id ref),
                 PartialUpdateText (msg_id ref) (msg @ '' - '' @ hint env),
                 IndicatorClear (msg_cid ref) (msg_id ref)]
            | Inl (NonError v) \<Rightarrow>
                [IndicatorUpdate AI_STATE_ERROR (msg_cid ref) (msg_id ref),
                 PartialUpdateText (msg_id ref) (''Error generating the message - '' @ hint env),
                 IndicatorClear (msg_cid ref) (msg_id ref)])
       \<and> filter is_placeholder_creation (chat_effects (handleMessage env ag e)) = [SendMessage [] True]
       \<and> filter is_indicator_clear (chat_effects (handleMessage env ag e))
           = [IndicatorClear (msg_cid ref) (msg_id ref)]
       \<and> (\<exists>t. filter is_text_mutation (chat_effects (handleMessage env ag e))
                 = [PartialUpdateText (msg_id ref) t])
       \<and> last (chat_effects (handleMessage env ag e)) = IndicatorClear (msg_cid ref) (msg_id ref)
       \<and> raised (handleMessage env ag e) = None"
  using handleMessage_effects [OF assms, of ag]
  by (simp add: exchange_reply_eq reply_text_def error_text_def split: sum.splits js_error.splits)

text \<open>
  A call that never settles, a result with text, and a rejection with a value that is no
  \<^verbatim>\<open>Error\<close>, on the demo channel.
\<close>

theorem exchange_effects_once_witness:
  "chat_effects (handleMessage (demo_env never_settles) demo_agent (user_event ''q'' []))
     = [SendMessage [] True,
        IndicatorUpdate AI_STATE_THINKING ''messaging:c1'' ''m1'',
        IndicatorUpdate AI_STATE_ERROR ''messaging:c1'' ''m1'',
        PartialUpdateText ''m1''
          ''MedGemma timed out - Gradio call failed (baseUrl=https://demo.gradio.live, apiName=/chat)'',
        IndicatorClear ''messaging:c1'' ''m1'']
   \<and> chat_effects (handleMessage (demo_env (resolves text_result)) demo_agent (user_event ''q'' []))
     = [SendMessage [] True,
        IndicatorUpdate AI_STATE_THINKING ''messaging:c1'' ''m1'',
        PartialUpdateText ''m1'' ''hello\<newline>world'',
        IndicatorClear ''messaging:c1'' ''m1'']
   \<and> chat_effects
        (handleMessage (demo_env (\<lambda>c path v. Settles 10 (Inl (NonError (JStr ''busy''))))) demo_agent
           (user_event ''q'' []))
     = [SendMessage [] True,
        IndicatorUpdate AI_STATE_THINKING ''messaging:c1'' ''m1'',
        IndicatorUpdate AI_STATE_ERROR ''messaging:c1'' ''m1'',
        PartialUpdateText ''m1''
          ''Error generating the message - Gradio call failed (baseUrl=https://demo.gradio.live, apiName=/chat)'',
        IndicatorClear ''messaging:c1'' ''m1'']"
proof -
  let ?m = "\<lparr>msg_text = Some ''q'', ai_generated = None, attachments = Some []\<rparr>"
  let ?ref = "\<lparr>msg_id = ''m1'', msg_cid = ''messaging:c1''\<rparr>"
  have e: "message (user_event ''q'' []) = Some ?m" and g: "ai_generated ?m \<noteq> Some True"
    by (simp_all add: user_event_def)
  have s: "sendMessage (demo_env p) = Inr ?ref" and ok: "\<forall>s. chat_fails (demo_env p) s = None" for p
    by (simp_all add: demo_env_def)
  have 1: "exchange_reply (demo_env never_settles) demo_agent ?m
             = Inl (JsError ''MedGemma timed out'')"
    and 2: "exchange_reply (demo_env (resolves text_result)) demo_agent ?m
             = Inr (JStr ''hello\<newline>world'')"
    and 3: "exchange_reply (demo_env (\<lambda>c path v. Settles 10 (Inl (NonError (JStr ''busy''))))) demo_agent ?m
             = Inl (NonError (JStr ''busy''))"
    by (simp_all add: run_defs demo_defs)
  have h: "hint (demo_env p) = ''Gradio call failed (baseUrl=https://demo.gradio.live, apiName=/chat)''"
    for p
    by (simp add: hint_def demo_env_def or_default_def js_or_def)
  from exchange_effects_once [OF e g s ok, of never_settles demo_agent]
       exchange_effects_once [OF e g s ok, of "resolves text_result" demo_agent]
       exchange_effects_once [OF e g s ok, of "\<lambda>c path v. Settles 10 (Inl (NonError (JStr ''busy'')))" demo_agent]
       1 2 3 h
  show ?thesis by simp
qed

section \<open>Adopting a returned history\<close>

text \<open>
  C3, as amended. When the state slot \<^verbatim>\<open>result.data[2]\<close> is an array \<open>H\<close>, or it is not an
  array and the chatbot slot \<^verbatim>\<open>result.data[1]\<close> is \<open>H\<close>, the stored history after the exchange
  is \<open>H\<close> itself, nothing kept of the old one; and when \<open>H\<close> is a list of pairs of strings
  and the chat backend accepts the update and the clear, the one text written into the
  placeholder is the assistant text of the last pair of \<open>H\<close>, the empty string when \<open>H\<close>
  is empty.
\<close>

theorem adopted_history_replaces:
  assumes "remote_result env ag e = Some result"
    and "stateHistory result = JArr H
           \<or> (\<not> isArray (stateHistory result) \<and> chatbotHistory result = JArr H)"
  shows "history (agent_after (handleMessage env ag e)) = H
       \<and> (list_all chat_pair H \<and> sendMessage env = Inr ref
            \<and> chat_fails env AtReplyUpdate = None \<and> chat_fails env AtReplyClear = None
          \<longrightarrow> filter is_text_mutation (chat_effects (handleMessage env ag e))
                = [PartialUpdateText (msg_id ref) (if H = [] then [] else assistant_text (last H))])"
proof -
  have "history (agent_after (handleMessage env ag e)) = H"
    using assms by (auto simp: handleMessage_history adoptResult_history)
  moreover have "filter is_text_mutation (chat_effects (handleMessage env ag e))
           = [PartialUpdateText (msg_id ref) (if H = [] then [] else assistant_text (last H))]"
    if p: "list_all chat_pair H" and r: "sendMessage env = Inr ref"
      and u: "chat_fails env AtReplyUpdate = None" and c: "chat_fails env AtReplyClear = None"
    using handleMessage_replied [OF assms(1) r u c adoptResult_pairs [OF assms(2) p]]
    by (simp add: reply_text_string)
  ultimately show ?thesis by blast
qed

text \<open>
  A result carrying both slots: the state slot is stored and its last pair is the reply.
\<close>

theorem adopted_history_replaces_witness:
  "history (agent_after
      (handleMessage (demo_env (resolves both_slots_result)) demo_agent (user_event ''q'' [])))
     = [JArr [JStr ''q'', JStr ''from the state slot'']]
   \<and> filter is_text_mutation (chat_effects
      (handleMessage (demo_env (resolves both_slots_result)) demo_agent (user_event ''q'' [])))
     = [PartialUpdateText ''m1'' ''from the state slot'']"
proof -
  have 1: "remote_result (demo_env (resolves both_slots_result)) demo_agent (user_event ''q'' [])
             = Some both_slots_result"
    by (simp add: run_defs demo_defs)
  have 2: "sendMessage (demo_env (resolves both_slots_result))
             = Inr \<lparr>msg_id = ''m1'', msg_cid = ''messaging:c1''\<rparr>"
    and 3: "chat_fails (demo_env (resolves both_slots_result)) AtReplyUpdate = None"
    and 4: "chat_fails (demo_env (resolves both_slots_result)) AtReplyClear = None"
    by (simp_all add: demo_env_def)
  have 5: "stateHistory both_slots_result = JArr [JArr [JStr ''q'', JStr ''from the state slot'']]
           \<or> (\<not> isArray (stateHistory both_slots_result)
               \<and> chatbotHistory both_slots_result = JArr [JArr [JStr ''q'', JStr ''from the state slot'']])"
    by (simp add: run_defs demo_defs)
  have 6: "list_all chat_pair [JArr [JStr ''q'', JStr ''from the state slot'']]"
    by simp
  from adopted_history_replaces [OF 1 5, of "\<lparr>msg_id = ''m1'', msg_cid = ''messaging:c1''\<rparr>"] 2 3 4 6
  show ?thesis by simp
qed

text \<open>
  C3 as stated fails for a history in the chatbot slot when the state slot holds another
  array: the chatbot slot is a recognised position and holds a well-formed history, yet the
  stored history is not that one.
\<close>

theorem chatbot_slot_not_adopted:
  "chatbotHistory both_slots_result = JArr [JArr [JStr ''q'', JStr ''from the chatbot slot'']]
   \<and> chat_pair (JArr [JStr ''q'', JStr ''from the chatbot slot''])
   \<and> remote_result (demo_env (resolves both_slots_result)) demo_agent (user_event ''q'' [])
       = Some both_slots_result
   \<and> history (agent_after
        (handleMessage (demo_env (resolves both_slots_result)) demo_agent (user_event ''q'' [])))
       \<noteq> [JArr [JStr ''q'', JStr ''from the chatbot slot'']]"
  by (simp add: run_defs demo_defs)

section \<open>Extracting the reply from a result without history\<close>




section \<open>The timeout and the diagnostic\<close>

text \<open>
  A call that has not settled when the timer fires takes the exchange to the \<^verbatim>\<open>catch\<close>
  block with the timer's error; the text written names the base URL, and names the call
  path when \<^verbatim>\<open>GRADIO_API_NAME\<close> is set.
\<close>

lemma timed_out_exchange:
  assumes m: "message e = Some m" and g: "ai_generated m \<noteq> Some True"
    and r: "sendMessage env = Inr ref" and ok: "\<forall>s. chat_fails env s = None"
    and i: "import_gradio env = None" and c: "gradioClient ag = Some c"
    and f: "resolve_files (handle_file env)
           (imageUrls (case attachments m of None \<Rightarrow> [] | Some atts \<Rightarrow> atts)) = Inr files"
    and late: "case snd (tryPredict env (history ag) c (apiName env) (userMessage (msg_text m) files)) of
                 Never \<Rightarrow> True
               | Settles d x \<Rightarrow> 45000 \<le> d"
  shows "chat_effects (handleMessage env ag e) =
           [SendMessage [] True,
            IndicatorUpdate AI_STATE_THINKING (msg_cid ref) (msg_id ref),
            IndicatorUpdate AI_STATE_ERROR (msg_cid ref) (msg_id ref),
            PartialUpdateText (msg_id ref) (''MedGemma timed out - '' @ hint env),
            IndicatorClear (msg_cid ref) (msg_id ref)]"
proof -
  have "fst (awaitResult env (ag\<lparr>lastInteractionTs := now env\<rparr>) m) =
          Inl (JsError ''MedGemma timed out'')"
    using handleMessage_awaited [OF i c f] late
    by (simp add: withTimeout_def split: promise.splits)
  then show ?thesis
    using handleMessage_effects(1) [OF m g r ok, of ag] by (simp add: error_text_def)
qed

lemma hint_includes_base_url:
  "GRADIO_BASE_URL env = Some b \<Longrightarrow> str_includes (msg @ hint env) b"
proof -
  assume b: "GRADIO_BASE_URL env = Some b"
  obtain rest where "msg @ hint env = (msg @ ''Gradio call failed (baseUrl='') @ b @ rest"
    using b by (simp add: hint_def)
  then show ?thesis using str_includes_append by metis
qed

lemma hint_includes_api_name:
  "GRADIO_API_NAME env = Some p \<Longrightarrow> p \<noteq> [] \<Longrightarrow> str_includes (msg @ hint env) (apiName env)"
proof -
  assume p: "GRADIO_API_NAME env = Some p" "p \<noteq> []"
  obtain pre where "msg @ hint env = pre @ apiName env @ '')''"
    using p by (simp add: hint_def apiName_def or_default_def js_or_def)
  then show ?thesis using str_includes_append by metis
qed

text \<open>
  C5. A call that has not settled within the 45 seconds fails the exchange, and the error
  text written into the placeholder is to contain the base URL and the call path. It
  contains the base URL; the call path it misses at this input: with \<^verbatim>\<open>GRADIO_API_NAME\<close>
  unset and \<^verbatim>\<open>GRADIO_PREDICT_PATH\<close> set to \<^verbatim>\<open>/predict\<close>, and a call that never settles, the
  call went to \<^verbatim>\<open>/chat\<close> (line 61 does not read \<^verbatim>\<open>GRADIO_PREDICT_PATH\<close>), the text written
  reports \<^verbatim>\<open>apiName=/predict\<close> (line 140 does), and the path that was called does not occur
  in it.
\<close>

theorem timeout_hint_misses_call_path:
  "map (\<lambda>call. fst (snd call))
     (predict_calls (handleMessage legacy_path_env demo_agent (user_event ''q'' []))) = [''/chat'']
   \<and> filter is_text_mutation
        (chat_effects (handleMessage legacy_path_env demo_agent (user_event ''q'' [])))
       = [PartialUpdateText ''m1''
            ''MedGemma timed out - Gradio call failed (baseUrl=https://demo.gradio.live, apiName=/predict)'']
   \<and> \<not> str_includes
          ''MedGemma timed out - Gradio call failed (baseUrl=https://demo.gradio.live, apiName=/predict)''
          ''/chat''"
  by (simp add: run_defs demo_defs)

section \<open>The compatibility retry\<close>

text \<open>
  C6, as amended. In a run that reaches the remote call, the first call carries the
  keyword payload \<^verbatim>\<open>{message_dict: userMessage}\<close>; the positional call
  \<^verbatim>\<open>[userMessage, history]\<close> is made, once, exactly when the first call rejected, and no
  other call is made. When both reject, the exchange ends in the \<^verbatim>\<open>catch\<close> block, with the
  second error, or with the timer's when the two attempts took 45 seconds or more.
\<close>

theorem retry_once_positional:
  assumes "message e = Some m" and "ai_generated m \<noteq> Some True"
    and "sendMessage env = Inr ref" and "chat_fails env AtThinking = None"
    and "import_gradio env = None" and "gradioClient ag = Some c"
    and "resolve_files (handle_file env)
           (imageUrls (case attachments m of None \<Rightarrow> [] | Some atts \<Rightarrow> atts)) = Inr files"
    and "um = userMessage (msg_text m) files"
  shows "predict_calls (handleMessage env ag e) =
           (case predict env c (apiName env) (keyword_payload um) of
              Settles d (Inl err) \<Rightarrow>
                [(c, apiName env, keyword_payload um),
                 (c, apiName env, positional_payload um (history ag))]
            | _ \<Rightarrow> [(c, apiName env, keyword_payload um)])
       \<and> (predict env c (apiName env) (keyword_payload um) = Settles d1 (Inl e1)
            \<and> predict env c (apiName env) (positional_payload um (history ag)) = Settles d2 (Inl e2)
            \<and> (\<forall>s. chat_fails env s = None)
          \<longrightarrow> chat_effects (handleMessage env ag e) =
                [SendMessage [] True,
                 IndicatorUpdate AI_STATE_THINKING (msg_cid ref) (msg_id ref),
                 IndicatorUpdate AI_STATE_ERROR (msg_cid ref) (msg_id ref),
                 PartialUpdateText (msg_id ref)
                   (error_text env (if d1 + d2 < 45000 then e2 else JsError ''MedGemma timed out'')),
                 IndicatorClear (msg_cid ref) (msg_id ref)])"
proof -
  have calls: "predict_calls (handleMessage env ag e) =
           fst (tryPredict env (history ag) c (apiName env) um)"
    using handleMessage_calls [OF assms(1-7)] assms(8) by simp
  have first: "predict_calls (handleMessage env ag e) =
           (case predict env c (apiName env) (keyword_payload um) of
              Settles d (Inl err) \<Rightarrow>
                [(c, apiName env, keyword_payload um),
                 (c, apiName env, positional_payload um (history ag))]
            | _ \<Rightarrow> [(c, apiName env, keyword_payload um)])"
    unfolding calls by (simp add: tryPredict_def split: promise.splits sum.splits)
  have second: "chat_effects (handleMessage env ag e) =
                [SendMessage [] True,
                 IndicatorUpdate AI_STATE_THINKING (msg_cid ref) (msg_id ref),
                 IndicatorUpdate AI_STATE_ERROR (msg_cid ref) (msg_id ref),
                 PartialUpdateText (msg_id ref)
                   (error_text env (if d1 + d2 < 45000 then e2 else JsError ''MedGemma timed out'')),
                 IndicatorClear (msg_cid ref) (msg_id ref)]"
    if k: "predict env c (apiName env) (keyword_payload um) = Settles d1 (Inl e1)"
      and p: "predict env c (apiName env) (positional_payload um (history ag)) = Settles d2 (Inl e2)"
      and ok: "\<forall>s. chat_fails env s = None"
  proof -
    have "fst (awaitResult env (ag\<lparr>lastInteractionTs := now env\<rparr>) m) =
            Inl (if d1 + d2 < 45000 then e2 else JsError ''MedGemma timed out'')"
      using handleMessage_awaited [OF assms(5-7)] assms(8) k p
      by (simp add: tryPredict_def withTimeout_def)
    then show ?thesis
      using handleMessage_effects(1) [OF assms(1-3) ok, of ag] by simp
  qed
  from first second show ?thesis by blast
qed

text \<open>
  An endpoint that rejects the keyword call, one that accepts it, and one that rejects
  both.
\<close>

theorem retry_once_positional_witness:
  "predict_calls (handleMessage (demo_env (keyword_rejected (JStr ''hi''))) demo_agent (user_event ''q'' []))
     = [(1, ''/chat'', JObj [(''message_dict'', userMessage (Some ''q'') [])]),
        (1, ''/chat'', JArr [userMessage (Some ''q'') [], JArr [JArr [JStr ''hello'', JStr ''hi there'']]])]
   \<and> predict_calls (handleMessage (demo_env (resolves (JStr ''hi''))) demo_agent (user_event ''q'' []))
     = [(1, ''/chat'', JObj [(''message_dict'', userMessage (Some ''q'') [])])]
   \<and> chat_effects (handleMessage (demo_env always_rejects) demo_agent (user_event ''q'' []))
     = [SendMessage [] True,
        IndicatorUpdate AI_STATE_THINKING ''messaging:c1'' ''m1'',
        IndicatorUpdate AI_STATE_ERROR ''messaging:c1'' ''m1'',
        PartialUpdateText ''m1''
          ''endpoint unavailable - Gradio call failed (baseUrl=https://demo.gradio.live, apiName=/chat)'',
        IndicatorClear ''messaging:c1'' ''m1'']"
proof -
  let ?m = "\<lparr>msg_text = Some ''q'', ai_generated = None, attachments = Some []\<rparr>"
  let ?ref = "\<lparr>msg_id = ''m1'', msg_cid = ''messaging:c1''\<rparr>"
  have e: "message (user_event ''q'' []) = Some ?m" and g: "ai_generated ?m \<noteq> Some True"
    by (simp_all add: user_event_def)
  have s: "sendMessage (demo_env p) = Inr ?ref" and t: "chat_fails (demo_env p) AtThinking = None"
    and i: "import_gradio (demo_env p) = None" and ok: "\<forall>s. chat_fails (demo_env p) s = None"
    and f: "resolve_files (handle_file (demo_env p))
              (imageUrls (case attachments ?m of None \<Rightarrow> [] | Some atts \<Rightarrow> atts)) = Inr []"
    for p
    by (simp_all add: demo_env_def imageUrls_def List.map_filter_def)
  have c: "gradioClient demo_agent = Some 1"
    by (simp add: demo_agent_def)
  note w = retry_once_positional [OF e g s t i c f refl]
  from w [of "keyword_rejected (JStr ''hi'')"] w [of "resolves (JStr ''hi'')"]
       w [of always_rejects 10 "JsError ''endpoint unavailable''" 10 "JsError ''endpoint unavailable''"]
       ok [of always_rejects]
  show ?thesis
    by (simp add: demo_defs apiName_def or_default_def keyword_payload_def positional_payload_def
          userMessage_def error_text_def hint_def js_or_def)
qed

text \<open>
  C6 as stated fails on the key of the first payload: the source sends
  \<^verbatim>\<open>message_dict\<close>, not \<^verbatim>\<open>message\<close>.
\<close>

theorem keyword_is_message_dict:
  "predict_calls (handleMessage (demo_env (resolves (JStr ''hi''))) demo_agent (user_event ''q'' []))
     = [(1, ''/chat'', JObj [(''message_dict'', userMessage (Some ''q'') [])])]
   \<and> JObj [(''message_dict'', userMessage (Some ''q'') [])]
       \<noteq> spec_keyword_payload (userMessage (Some ''q'') [])"
  by (simp add: run_defs demo_defs spec_keyword_payload_def)

section \<open>The files sent\<close>

text \<open>
  C7. The source's URL list is the specification's: of the image attachments, in order, the
  first non-empty of \<^verbatim>\<open>image_url\<close>, \<^verbatim>\<open>asset_url\<close>, \<^verbatim>\<open>thumb_url\<close>, \<^verbatim>\<open>og_scrape_url\<close>, an
  attachment with none being dropped. In a run that reaches the remote call, with a file
  collaborator \<open>handle\<close> that resolves every URL, the object \<^verbatim>\<open>{text, files}\<close> sent has under
  \<^verbatim>\<open>files\<close> the handles of exactly those URLs, in that order; it is sent as
  \<^verbatim>\<open>{message_dict: {text, files}}\<close>, and again as \<^verbatim>\<open>[{text, files}, history]\<close> when there is a
  retry. The specification's example gives \<^verbatim>\<open>u1\<close>, \<^verbatim>\<open>u2\<close>.
\<close>

theorem image_files_sent:
  assumes "message e = Some m" and "ai_generated m \<noteq> Some True"
    and "sendMessage env = Inr ref" and "chat_fails env AtThinking = None"
    and "import_gradio env = None" and "gradioClient ag = Some c"
    and "\<forall>u. handle_file env u = Inr (handle u)"
    and "um = JObj [(''text'', case msg_text m of None \<Rightarrow> JUndefined | Some s \<Rightarrow> JStr s),
                    (''files'',
                     JArr (map handle
                            (spec_image_urls (case attachments m of None \<Rightarrow> [] | Some atts \<Rightarrow> atts))))]"
  shows "(predict_calls (handleMessage env ag e) = [(c, apiName env, JObj [(''message_dict'', um)])]
          \<or> predict_calls (handleMessage env ag e) =
               [(c, apiName env, JObj [(''message_dict'', um)]),
                (c, apiName env, JArr [um, JArr (history ag)])])
       \<and> imageUrls atts = spec_image_urls atts
       \<and> imageUrls [image_attachment (Some ''u1'') None, file_attachment,
                     image_attachment None (Some ''u2'')] = [''u1'', ''u2'']"
proof -
  have f: "resolve_files (handle_file env)
             (imageUrls (case attachments m of None \<Rightarrow> [] | Some atts \<Rightarrow> atts))
           = Inr (map handle (spec_image_urls (case attachments m of None \<Rightarrow> [] | Some atts \<Rightarrow> atts)))"
    using resolve_files_total [OF assms(7)] by (simp add: imageUrls_spec)
  have u: "userMessage (msg_text m)
             (map handle (spec_image_urls (case attachments m of None \<Rightarrow> [] | Some atts \<Rightarrow> atts))) = um"
    using assms(8) by (simp add: userMessage_def)
  have calls: "predict_calls (handleMessage env ag e) =
           fst (tryPredict env (history ag) c (apiName env) um)"
    using handleMessage_calls [OF assms(1-6) f] u by simp
  have a: "predict_calls (handleMessage env ag e) = [(c, apiName env, JObj [(''message_dict'', um)])]
          \<or> predict_calls (handleMessage env ag e) =
               [(c, apiName env, JObj [(''message_dict'', um)]),
                (c, apiName env, JArr [um, JArr (history ag)])]"
    unfolding calls
    by (simp add: tryPredict_def keyword_payload_def positional_payload_def
          split: promise.splits sum.splits)
  have ex: "imageUrls [image_attachment (Some ''u1'') None, file_attachment,
                     image_attachment None (Some ''u2'')] = [''u1'', ''u2'']"
    by (simp add: run_defs demo_defs)
  from a ex imageUrls_spec [of atts] show ?thesis by blast
qed

text \<open>
  The specification's example run through the handler, without and with the retry.
\<close>

theorem image_files_sent_witness:
  "predict_calls
     (handleMessage (demo_env (resolves (JStr ''hi''))) demo_agent
        (user_event ''q'' [image_attachment (Some ''u1'') None, file_attachment,
                           image_attachment None (Some ''u2'')]))
     = [(1, ''/chat'',
         JObj [(''message_dict'',
                JObj [(''text'', JStr ''q''),
                      (''files'', JArr [JObj [(''url'', JStr ''u1'')], JObj [(''url'', JStr ''u2'')]])])])]
   \<and> predict_calls
     (handleMessage (demo_env (keyword_rejected (JStr ''hi''))) demo_agent
        (user_event ''q'' [image_attachment (Some ''u1'') None, file_attachment,
                           image_attachment None (Some ''u2'')]))
     = [(1, ''/chat'',
         JObj [(''message_dict'',
                JObj [(''text'', JStr ''q''),
                      (''files'', JArr [JObj [(''url'', JStr ''u1'')], JObj [(''url'', JStr ''u2'')]])])]),
        (1, ''/chat'',
         JArr [JObj [(''text'', JStr ''q''),
                     (''files'', JArr [JObj [(''url'', JStr ''u1'')], JObj [(''url'', JStr ''u2'')]])],
               JArr [JArr [JStr ''hello'', JStr ''hi there'']]])]"
proof -
  let ?atts = "[image_attachment (Some ''u1'') None, file_attachment, image_attachment None (Some ''u2'')]"
  let ?m = "\<lparr>msg_text = Some ''q'', ai_generated = None, attachments = Some ?atts\<rparr>"
  have e: "message (user_event ''q'' ?atts) = Some ?m" and g: "ai_generated ?m \<noteq> Some True"
    by (simp_all add: user_event_def)
  have s: "sendMessage (demo_env p) = Inr \<lparr>msg_id = ''m1'', msg_cid = ''messaging:c1''\<rparr>"
    and t: "chat_fails (demo_env p) AtThinking = None" and i: "import_gradio (demo_env p) = None"
    and h: "\<forall>u. handle_file (demo_env p) u = Inr (demo_handle u)" for p
    by (simp_all add: demo_env_def)
  have c: "gradioClient demo_agent = Some 1"
    by (simp add: demo_agent_def)
  have u: "spec_image_urls ?atts = [''u1'', ''u2'']"
    by (simp add: spec_image_urls_def List.map_filter_def image_attachment_def file_attachment_def)
  from image_files_sent [OF e g s t i c h refl, of "resolves (JStr ''hi'')"]
       image_files_sent [OF e g s t i c h refl, of "keyword_rejected (JStr ''hi'')"] u
  show ?thesis
    by (simp add: run_defs demo_defs)
qed

section \<open>No local accumulation\<close>

text \<open>
  C8, as amended. When the result carries no array in either slot, the history after the
  exchange is the history before it: the handler appends nothing.
\<close>

theorem history_kept_without_state:
  assumes "remote_result env ag e = Some result"
    and "\<not> isArray (stateHistory result)" and "\<not> isArray (chatbotHistory result)"
  shows "history (agent_after (handleMessage env ag e)) = history ag"
  using assms by (simp add: handleMessage_history adoptResult_history)

text \<open>
  A plain string as the result.
\<close>

theorem history_kept_without_state_witness:
  "remote_result (demo_env (resolves (JStr ''hi''))) demo_agent (user_event ''q'' []) = Some (JStr ''hi'')
   \<and> history (agent_after
        (handleMessage (demo_env (resolves (JStr ''hi''))) demo_agent (user_event ''q'' [])))
       = [JArr [JStr ''hello'', JStr ''hi there'']]"
proof -
  have 1: "remote_result (demo_env (resolves (JStr ''hi''))) demo_agent (user_event ''q'' [])
             = Some (JStr ''hi'')"
    and 2: "\<not> isArray (stateHistory (JStr ''hi''))" and 3: "\<not> isArray (chatbotHistory (JStr ''hi''))"
    by (simp_all add: run_defs demo_defs)
  from history_kept_without_state [OF 1 2 3] 1 show ?thesis by (simp add: demo_agent_def)
qed

text \<open>
  C8 as stated fails on a plain string result: the exchange completes, the reply is
  written, and the history is not the old one with the pair of the round appended.
\<close>

theorem no_local_append:
  "remote_result (demo_env (resolves (JStr ''hi''))) demo_agent (user_event ''q'' []) = Some (JStr ''hi'')
   \<and> chat_effects (handleMessage (demo_env (resolves (JStr ''hi''))) demo_agent (user_event ''q'' []))
       = [SendMessage [] True, IndicatorUpdate AI_STATE_THINKING ''messaging:c1'' ''m1'',
          PartialUpdateText ''m1'' ''hi'', IndicatorClear ''messaging:c1'' ''m1'']
   \<and> history (agent_after
        (handleMessage (demo_env (resolves (JStr ''hi''))) demo_agent (user_event ''q'' [])))
       \<noteq> spec_local_append (history demo_agent) ''q'' ''hi''"
  by (simp add: run_defs demo_defs spec_local_append_def)

section \<open>Disposal\<close>

text \<open>
  C9, as amended. \<^verbatim>\<open>dispose\<close> raises exactly when unsubscribing throws or
  \<^verbatim>\<open>disconnectUser\<close> rejects, with that error; what \<^verbatim>\<open>close\<close> does never changes whether
  it raises; and with no connection handle, on a chat client that unsubscribes and
  disconnects, it unsubscribes and disconnects, closes nothing and raises nothing.
\<close>

theorem dispose_raises_from_chat_only:
  "dispose_raised (dispose denv ag) =
     (case off_throws denv of Some err \<Rightarrow> Some err | None \<Rightarrow> disconnect_fails denv)
   \<and> dispose_raised (dispose (denv\<lparr>close_result := cr\<rparr>) ag) = dispose_raised (dispose denv ag)
   \<and> (gradioClient ag = None \<and> off_throws denv = None \<and> disconnect_fails denv = None
        \<longrightarrow> dispose denv ag =
              \<lparr>dispose_effects = [Unsubscribe, DisconnectUser], dispose_raised = None,
               unhandled_rejection = None\<rparr>)"
  by (simp add: dispose_def Let_def split: option.splits)

text \<open>
  An agent that was never initialised, and a connection whose \<^verbatim>\<open>close\<close> throws.
\<close>

theorem dispose_raises_from_chat_only_witness:
  "dispose \<lparr>off_throws = None, close_result = CloseReturns, disconnect_fails = None\<rparr> fresh_agent
     = \<lparr>dispose_effects = [Unsubscribe, DisconnectUser], dispose_raised = None,
        unhandled_rejection = None\<rparr>
   \<and> dispose_raised
       (dispose \<lparr>off_throws = None, close_result = CloseThrows (JsError ''already closed''),
                 disconnect_fails = None\<rparr> demo_agent) = None"
  using dispose_raises_from_chat_only
          [of "\<lparr>off_throws = None, close_result = CloseReturns, disconnect_fails = None\<rparr>" fresh_agent]
        dispose_raises_from_chat_only
          [of "\<lparr>off_throws = None, close_result = CloseReturns, disconnect_fails = None\<rparr>" demo_agent
              "CloseThrows (JsError ''already closed'')"]
  by (simp add: fresh_agent_def)

text \<open>
  C9 as stated fails when \<^verbatim>\<open>disconnectUser\<close> rejects: the \<^verbatim>\<open>await\<close> stands outside the
  \<^verbatim>\<open>try\<close>, and \<^verbatim>\<open>dispose\<close> rejects with the error.
\<close>

theorem disconnect_error_propagates:
  "dispose_raised
     (dispose \<lparr>off_throws = None, close_result = CloseReturns,
               disconnect_fails = Some (JsError ''connection already closed'')\<rparr> demo_agent)
   \<noteq> None"
  by (simp add: dispose_def Let_def demo_agent_def)

section \<open>Precedence of the state slot\<close>

text \<open>
  C10. When \<^verbatim>\<open>result.data[2]\<close> is an array it becomes the history, whatever
  \<^verbatim>\<open>result.data[1]\<close> holds; \<^verbatim>\<open>result.data[1]\<close> becomes the history only when
  \<^verbatim>\<open>result.data[2]\<close> is not an array.
\<close>

theorem state_slot_precedence:
  assumes "remote_result env ag e = Some result"
  shows "(stateHistory result = JArr S
            \<longrightarrow> history (agent_after (handleMessage env ag e)) = S)
       \<and> (\<not> isArray (stateHistory result) \<and> chatbotHistory result = JArr C
            \<longrightarrow> history (agent_after (handleMessage env ag e)) = C)"
  using assms by (simp add: handleMessage_history adoptResult_history)

text \<open>
  Both slots present, then the chatbot slot alone.
\<close>

theorem state_slot_precedence_witness:
  "stateHistory both_slots_result = JArr [JArr [JStr ''q'', JStr ''from the state slot'']]
   \<and> isArray (chatbotHistory both_slots_result)
   \<and> history (agent_after
        (handleMessage (demo_env (resolves both_slots_result)) demo_agent (user_event ''q'' [])))
       = [JArr [JStr ''q'', JStr ''from the state slot'']]
   \<and> \<not> isArray (stateHistory chatbot_slot_result)
   \<and> history (agent_after
        (handleMessage (demo_env (resolves chatbot_slot_result)) demo_agent (user_event ''q'' [])))
       = [JArr [JStr ''q'', JStr ''from the chatbot slot'']]"
proof -
  have 1: "remote_result (demo_env (resolves both_slots_result)) demo_agent (user_event ''q'' [])
             = Some both_slots_result"
    and 2: "remote_result (demo_env (resolves chatbot_slot_result)) demo_agent (user_event ''q'' [])
             = Some chatbot_slot_result"
    by (simp_all add: run_defs demo_defs)
  have 3: "stateHistory both_slots_result = JArr [JArr [JStr ''q'', JStr ''from the state slot'']]"
    and 4: "isArray (chatbotHistory both_slots_result)"
    and 5: "\<not> isArray (stateHistory chatbot_slot_result)"
    and 6: "chatbotHistory chatbot_slot_result = JArr [JArr [JStr ''q'', JStr ''from the chatbot slot'']]"
    by (simp_all add: run_defs demo_defs)
  from state_slot_precedence [OF 1, of "[JArr [JStr ''q'', JStr ''from the state slot'']]"]
       state_slot_precedence [OF 2, of _ "[JArr [JStr ''q'', JStr ''from the chatbot slot'']]"]
       3 4 5 6
  show ?thesis by simp
qed

end
